theory Spec2Isabelle
  imports Complex_Main "HOL-Library.AList" "HOL-Library.Sublist"
begin

section \<open>Python values, exceptions and the notebook's global names\<close>

text \<open>
  The two notebooks are straight-line Python over pandas tables. A cell of a table is
  null (\<open>NaN\<close>), a number or a string. Exceptions are values of \<open>exn\<close>; a call that
  may raise returns \<open>exn + 'a\<close> with \<open>Inl\<close> for the raised exception.
\<close>

datatype cell = NaN | Num int | Str string

datatype exn =
    NameError string
  | KeyError string
  | ZeroDivisionError
  | LibraryError

text \<open>
  The global namespace of \<open>1_genfeats_graph.ipynb\<close> at the moment cell 8 calls
  \<open>prepare_graph_inputdata\<close>: the names bound by the import and assignment statements of
  cells 1, 3, 5, 6 and the first lines of cell 8, in that order. No statement of the
  notebook binds the name \<open>ipaddress\<close>.
\<close>

definition cell1_names :: "string list" where
  "cell1_names = [''pd'', ''np'', ''datetime'', ''os'']"

definition cell3_names :: "string list" where
  "cell3_names = [''host100'', ''per100'', ''cisco_1m'', ''hist100'', ''malhist'']"

definition cell5_names :: "string list" where
  "cell5_names = [''tldextract'', ''GraphDatabase'', ''AddNode'', ''merge_cisco'']"

definition cell6_names :: "string list" where
  "cell6_names = [''prepare_graph_inputdata'', ''parse_reg_dom'', ''isIP'']"

definition cell8_names :: "string list" where
  "cell8_names = [''logday'', ''data_fmt'', ''feature_dir'', ''graphtmpdir'',
                  ''graphimport_rel'', ''logdf'']"

definition nb_globals :: "string list" where
  "nb_globals = cell1_names @ cell3_names @ cell5_names @ cell6_names @ cell8_names"

text \<open>Reading a global name that is not bound raises \<open>NameError\<close>.\<close>

definition load_global :: "string list \<Rightarrow> string \<Rightarrow> exn + unit" where
  "load_global globals name =
     (if name \<in> set globals then Inr () else Inl (NameError name))"

section \<open>Graph-input preparation (cell 6)\<close>

text \<open>
  \<^verbatim>\<open>
  def isIP(dom_text):
      try:
          _ = ipaddress.ip_address(dom_text)
          return 1
      except:
          return 0
  \<close>
  The library function \<open>ipaddress.ip_address\<close> is a parameter. The bare \<open>except\<close>
  catches every exception of the \<open>try\<close> body: the one raised by loading the name
  \<open>ipaddress\<close> as well as the one raised by the parser.
\<close>

definition isIP :: "string list \<Rightarrow> (cell \<Rightarrow> exn + 'a) \<Rightarrow> cell \<Rightarrow> int" where
  "isIP globals ip_address dom_text =
     (case load_global globals ''ipaddress'' of
        Inl e \<Rightarrow> 0
      | Inr u \<Rightarrow> (case ip_address dom_text of Inl e \<Rightarrow> 0 | Inr a \<Rightarrow> 1))"

text \<open>
  \<^verbatim>\<open>
  def parse_reg_dom(text):
      try:
          ext = tldextract.extract(text)
          if ext.registered_domain == '':
              return text
          return ext.registered_domain
      except:
          return text
  \<close>
  \<open>tldextract.extract\<close> is a parameter; of its result only the attribute
  \<open>registered_domain\<close> is read.
\<close>

record extract_result =
  registered_domain :: string

definition parse_reg_dom ::
  "string list \<Rightarrow> (cell \<Rightarrow> exn + extract_result) \<Rightarrow> cell \<Rightarrow> cell" where
  "parse_reg_dom globals extract text =
     (case load_global globals ''tldextract'' of
        Inl e \<Rightarrow> text
      | Inr u \<Rightarrow>
          (case extract text of
             Inl e \<Rightarrow> text
           | Inr ext \<Rightarrow>
               if registered_domain ext = '''' then text
               else Str (registered_domain ext)))"

text \<open>
  A recogniser of dotted-quad IPv4 literals (four decimal fields, each of one to three
  digits and at most 255), used only to exhibit inputs that are literal IP addresses.
\<close>

fun split_on :: "char \<Rightarrow> string \<Rightarrow> string list" where
  "split_on sep [] = [[]]"
| "split_on sep (c # cs) =
     (if c = sep then [] # split_on sep cs
      else (case split_on sep cs of [] \<Rightarrow> [[c]] | w # ws \<Rightarrow> (c # w) # ws))"

definition digit_val :: "char \<Rightarrow> nat option" where
  "digit_val c =
     (let n = (of_char c :: nat) in if 48 \<le> n \<and> n \<le> 57 then Some (n - 48) else None)"

fun decimal :: "nat \<Rightarrow> string \<Rightarrow> nat option" where
  "decimal acc [] = Some acc"
| "decimal acc (c # cs) =
     (case digit_val c of None \<Rightarrow> None | Some d \<Rightarrow> decimal (10 * acc + d) cs)"

definition is_octet :: "string \<Rightarrow> bool" where
  "is_octet s =
     (s \<noteq> [] \<and> length s \<le> 3 \<and>
      (case decimal 0 s of None \<Rightarrow> False | Some n \<Rightarrow> n \<le> 255))"

definition ipv4_literal :: "string \<Rightarrow> bool" where
  "ipv4_literal s = (let fs = split_on CHR ''.'' s in length fs = 4 \<and> list_all is_octet fs)"

section \<open>Tables\<close>

text \<open>
  A pandas \<open>DataFrame\<close>: the column labels in order and the rows in order, each row
  holding one cell per column. \<open>wf_frame\<close> says that the table is rectangular, as every
  table that pandas reads or builds is.
\<close>

record frame =
  columns :: "string list"
  records :: "cell list list"

definition wf_frame :: "frame \<Rightarrow> bool" where
  "wf_frame fr = list_all (\<lambda>r. length r = length (columns fr)) (records fr)"

fun col_index :: "string list \<Rightarrow> string \<Rightarrow> nat option" where
  "col_index [] c = None"
| "col_index (x # xs) c = (if x = c then Some 0 else map_option Suc (col_index xs c))"

definition cell_at :: "cell list \<Rightarrow> nat \<Rightarrow> cell" where
  "cell_at r i = (if i < length r then r ! i else NaN)"

text \<open>\<open>df[c]\<close>: the cells of column \<open>c\<close>, or \<open>KeyError\<close>.\<close>

definition getcol :: "frame \<Rightarrow> string \<Rightarrow> exn + cell list" where
  "getcol fr c =
     (case col_index (columns fr) c of
        None \<Rightarrow> Inl (KeyError c)
      | Some i \<Rightarrow> Inr (map (\<lambda>r. cell_at r i) (records fr)))"

text \<open>\<open>df[c] = vs\<close>: overwrite column \<open>c\<close> when it exists, else append it.\<close>

definition set_column :: "string \<Rightarrow> cell list \<Rightarrow> frame \<Rightarrow> frame" where
  "set_column c vs fr =
     (case col_index (columns fr) c of
        Some i \<Rightarrow> fr\<lparr>records := map (\<lambda>(r, v). r[i := v]) (zip (records fr) vs)\<rparr>
      | None \<Rightarrow> \<lparr>columns = columns fr @ [c],
                 records = map (\<lambda>(r, v). r @ [v]) (zip (records fr) vs)\<rparr>)"

text \<open>\<open>df.drop(columns=c)\<close>: remove the column labelled \<open>c\<close>, or \<open>KeyError\<close>.\<close>

definition drop_column :: "string \<Rightarrow> frame \<Rightarrow> exn + frame" where
  "drop_column c fr =
     (if c \<in> set (columns fr)
      then Inr \<lparr>columns = filter (\<lambda>x. x \<noteq> c) (columns fr),
                records = map (\<lambda>r. map snd (filter (\<lambda>p. fst p \<noteq> c) (zip (columns fr) r)))
                              (records fr)\<rparr>
      else Inl (KeyError c))"





section \<open>Graph-input table (cells 6 and 8)\<close>

text \<open>
  \<^verbatim>\<open>
  def prepare_graph_inputdata(logdf, ciscodf, logday, fqdn_col="host"):
      logdf = merge_cisco(logdf, ciscodf)
      logdf["logday"] = logday
      logdf["domain"] = logdf[fqdn_col].apply(lambda x: parse_reg_dom(x))
      logdf["isIP"] = logdf[fqdn_col].apply(lambda x: isIP(x))
      return logdf
  \<close>
  \<open>merge_cisco\<close> (module \<open>src.temporal_feats\<close>) is a parameter.
\<close>

definition prepare_graph_inputdata ::
  "string list \<Rightarrow> (frame \<Rightarrow> frame \<Rightarrow> exn + frame) \<Rightarrow> (cell \<Rightarrow> exn + extract_result) \<Rightarrow>
   (cell \<Rightarrow> exn + 'a) \<Rightarrow> frame \<Rightarrow> frame \<Rightarrow> cell \<Rightarrow> string \<Rightarrow> exn + frame" where
  "prepare_graph_inputdata globals merge_cisco extract ip_address logdf ciscodf logday fqdn_col =
     (case merge_cisco logdf ciscodf of
        Inl e \<Rightarrow> Inl e
      | Inr df1 \<Rightarrow>
          let df2 = set_column ''logday'' (replicate (length (records df1)) logday) df1 in
          (case getcol df2 fqdn_col of
             Inl e \<Rightarrow> Inl e
           | Inr hs \<Rightarrow>
               let df3 = set_column ''domain'' (map (parse_reg_dom globals extract) hs) df2 in
               (case getcol df3 fqdn_col of
                  Inl e \<Rightarrow> Inl e
                | Inr hs' \<Rightarrow>
                    Inr (set_column ''isIP''
                           (map (\<lambda>x. Num (isIP globals ip_address x)) hs') df3))))"

text \<open>
  \<^verbatim>\<open>
  logdf = host100.drop(columns=["id_orig_h"])
  graphdf = prepare_graph_inputdata(logdf, cisco_1m, logday)
  graphdf.to_csv(data_fpath, index=False)
  \<close>
  The table written to the graph database's import directory is \<open>graphdf\<close>.
\<close>

definition cell8_graphdf ::
  "(frame \<Rightarrow> frame \<Rightarrow> exn + frame) \<Rightarrow> (cell \<Rightarrow> exn + extract_result) \<Rightarrow>
   (cell \<Rightarrow> exn + 'a) \<Rightarrow> frame \<Rightarrow> frame \<Rightarrow> cell \<Rightarrow> exn + frame" where
  "cell8_graphdf merge_cisco extract ip_address host100 cisco_1m logday =
     (case drop_column ''id_orig_h'' host100 of
        Inl e \<Rightarrow> Inl e
      | Inr logdf \<Rightarrow>
          prepare_graph_inputdata nb_globals merge_cisco extract ip_address
            logdf cisco_1m logday ''host'')"

text \<open>Two tables that agree on everything but the cells of the columns labelled \<open>c\<close>.\<close>

definition same_except :: "string \<Rightarrow> frame \<Rightarrow> frame \<Rightarrow> bool" where
  "same_except c a b =
     (columns a = columns b \<and> length (records a) = length (records b) \<and>
      (\<forall>i < length (records a). \<forall>j < length (columns a).
          columns a ! j \<noteq> c \<longrightarrow> records a ! i ! j = records b ! i ! j))"

section \<open>The global-popularity table (the data-reading cell of both notebooks)\<close>








section \<open>Assembling the wide feature table (cells 21 and 22)\<close>








section \<open>The order of the passes (cells 12 to 19)\<close>

text \<open>
  \<^verbatim>\<open>
  dbhandler.add_nodes(graph_relfpath)                     # cell 12
  dbhandler.update_labels(histmal_relfpath)
  dbhandler.update_domMal_feats()
  dbhandler.update_ipMal_feats()
  dbhandler.domscore_to_csv(domscore_fpath)               # cell 13
  dbhandler.ipscore_to_csv(ipscore_fpath)
  dbhandler.close()                                       # cell 14
  domscore = gen_dom_graphscore(...)                      # cell 17
  ipscore = gen_ip_graphscore(...)                        # cell 18
  len2mal = gen_len2mal_score(...)                        # cell 19
  \<close>
  The bodies of these calls (modules \<open>src.addnode\<close> and \<open>src.graphscore_feats\<close>) are a
  parameter \<open>impl\<close> acting on a state of any type; a call that raises ends the run. The
  trace lists the calls that were started.
\<close>

datatype pass =
    Add_nodes | Update_labels | Update_domMal_feats | Update_ipMal_feats
  | Domscore_to_csv | Ipscore_to_csv | Close
  | Gen_dom_graphscore | Gen_ip_graphscore | Gen_len2mal_score

definition cell12 :: "pass list" where
  "cell12 = [Add_nodes, Update_labels, Update_domMal_feats, Update_ipMal_feats]"

definition cell13 :: "pass list" where
  "cell13 = [Domscore_to_csv, Ipscore_to_csv]"

definition cell14 :: "pass list" where
  "cell14 = [Close]"

definition cell17_19 :: "pass list" where
  "cell17_19 = [Gen_dom_graphscore, Gen_ip_graphscore, Gen_len2mal_score]"

definition notebook_calls :: "pass list" where
  "notebook_calls = cell12 @ cell13 @ cell14 @ cell17_19"

fun run_calls ::
  "(pass \<Rightarrow> 's \<Rightarrow> exn + 's) \<Rightarrow> pass list \<Rightarrow> 's \<Rightarrow> pass list \<Rightarrow> (exn + 's) \<times> pass list" where
  "run_calls impl [] s tr = (Inr s, tr)"
| "run_calls impl (p # ps) s tr =
     (case impl p s of
        Inl e \<Rightarrow> (Inl e, tr @ [p])
      | Inr s' \<Rightarrow> run_calls impl ps s' (tr @ [p]))"

definition run_notebook :: "(pass \<Rightarrow> 's \<Rightarrow> exn + 's) \<Rightarrow> 's \<Rightarrow> (exn + 's) \<times> pass list" where
  "run_notebook impl s = run_calls impl notebook_calls s []"

text \<open>In a trace, \<open>b\<close> is started only after \<open>a\<close> was.\<close>

definition runs_before :: "pass \<Rightarrow> pass \<Rightarrow> pass list \<Rightarrow> bool" where
  "runs_before a b tr = (b \<in> set tr \<longrightarrow> a \<in> set (takeWhile (\<lambda>x. x \<noteq> b) tr))"

section \<open>The graph store and its passes\<close>

text \<open>
  Modelled from the spec: the module \<open>src.addnode\<close> (class \<open>AddNode\<close>: \<open>add_nodes\<close>,
  \<open>update_labels\<close>, \<open>update_domMal_feats\<close>, \<open>update_ipMal_feats\<close>) and the module
  \<open>src.graphscore_feats\<close> (\<open>gen_len2mal_score\<close>) are not among the sources. The
  definitions of this section follow sections 3 and 4 of the specification: the data
  model, GraphStore, LabelPropagator, NeighborAggregator and DistanceScorer.
\<close>

text \<open>
  Modelled from the spec: the \<open>logday\<close> of section 3, a date, as a day number (the
  store of \<open>src.addnode\<close> is not among the sources).
\<close>

type_synonym day = nat

text \<open>
  Modelled from the spec: the FQDN node of section 3, with its attributes \<open>logday\<close>,
  \<open>isMalicious\<close> (default false), \<open>malEngagement\<close> (default 0) and \<open>popularity\<close>.
\<close>

record fqdn_node =
  logday :: day
  isMalicious :: bool
  malEngagement :: rat
  popularity :: rat

text \<open>
  Modelled from the spec: the aggregates that the Domain pass of section 4.3 writes on a
  Domain node. The minimum, maximum and average of an empty neighbourhood are absent.
\<close>

record dom_feats =
  cntFQDN :: nat
  cntIP :: nat
  cntMalFQDNs :: nat
  sumMalEng :: rat
  maxMalEng :: "rat option"
  minMalEng :: "rat option"
  avgMalEng :: "rat option"
  maxCisco :: "rat option"
  minCisco :: "rat option"
  avgCisco :: "rat option"
  sumMal :: rat
  maxMal :: "rat option"
  minMal :: "rat option"
  avgMal :: "rat option"
  malFQDN_ratio :: rat
  malEng_ratio :: rat

text \<open>
  Modelled from the spec: the aggregates of an IP node named in section 4.3. How they are
  computed is a parameter of the IP pass.
\<close>

record ip_feats =
  ipDom :: nat
  ipMalDom :: nat
  ipDomMalEng :: rat

text \<open>
  Modelled from the spec: the property graph of section 3. Nodes are kept in insertion
  order under their natural key; a Domain or IP node carries its aggregates once a pass has
  computed them. An edge is a pair (FQDN key, Domain or IP key).
\<close>

record graph =
  fqdns :: "(string \<times> fqdn_node) list"
  domains :: "(string \<times> dom_feats option) list"
  ips :: "(string \<times> ip_feats option) list"
  belongs_to :: "(string \<times> string) list"
  resolves_to :: "(string \<times> string) list"

text \<open>
  Modelled from the spec: the graph store of \<open>src.addnode\<close> before the first batch, with
  no node and no edge.
\<close>

definition empty_graph :: graph where
  "empty_graph = \<lparr>fqdns = [], domains = [], ips = [], belongs_to = [], resolves_to = []\<rparr>"

text \<open>
  Modelled from the spec: a row of \<open>upsert_batch\<close> (section 4.1),
  \<open>(host, server_ip, registered_domain, isIP, logday)\<close>; a row without host is malformed.
\<close>

record batch_row =
  row_host :: "string option"
  row_server_ip :: string
  row_registered_domain :: string
  row_isIP :: bool
  row_logday :: day

text \<open>
  Modelled from the spec: upsert of a node that has a key only (section 3: re-ingesting a
  key creates no second node).
\<close>

definition merge_key :: "string \<Rightarrow> (string \<times> 'v option) list \<Rightarrow> (string \<times> 'v option) list" where
  "merge_key k al = (case map_of al k of None \<Rightarrow> al @ [(k, None)] | Some v \<Rightarrow> al)"

text \<open>
  Modelled from the spec: upsert of an FQDN node with the latest \<open>logday\<close> (section 4.1):
  a new node gets the defaults, an existing one keeps its attributes and the later of its
  day and the row's.
\<close>

definition upsert_fqdn :: "string \<Rightarrow> day \<Rightarrow> (string \<times> fqdn_node) list \<Rightarrow> (string \<times> fqdn_node) list" where
  "upsert_fqdn h d al =
     AList.update h
       (case map_of al h of
          None \<Rightarrow> \<lparr>logday = d, isMalicious = False, malEngagement = 0, popularity = 0\<rparr>
        | Some n \<Rightarrow> n\<lparr>logday := max (logday n) d\<rparr>)
       al"

text \<open>
  Modelled from the spec: one row of \<open>upsert_batch\<close> (section 4.1). A row without host is
  skipped; otherwise the FQDN node is upserted, the Domain node and the BELONGS\_TO edge
  are merged unless \<open>isIP\<close>, and the IP node and the RESOLVES\_TO edge are merged.
\<close>

definition upsert_row :: "batch_row \<Rightarrow> graph \<Rightarrow> graph" where
  "upsert_row r g =
     (case row_host r of
        None \<Rightarrow> g
      | Some h \<Rightarrow>
          g\<lparr>fqdns := upsert_fqdn h (row_logday r) (fqdns g),
            domains := (if row_isIP r then domains g
                        else merge_key (row_registered_domain r) (domains g)),
            belongs_to := (if row_isIP r then belongs_to g
                           else List.insert (h, row_registered_domain r) (belongs_to g)),
            ips := merge_key (row_server_ip r) (ips g),
            resolves_to := List.insert (h, row_server_ip r) (resolves_to g)\<rparr>)"

text \<open>
  Modelled from the spec: \<open>upsert_batch\<close> (section 4.1), the rows applied in order, and
  the number of skipped malformed rows.
\<close>

definition upsert_batch :: "batch_row list \<Rightarrow> graph \<Rightarrow> graph" where
  "upsert_batch rs g = fold upsert_row rs g"

text \<open>
  Modelled from the spec: the count of ingestion errors of \<open>add_nodes\<close> (section 4.1,
  a malformed row is skipped and counted).
\<close>

definition ingestion_errors :: "batch_row list \<Rightarrow> nat" where
  "ingestion_errors rs = length (filter (\<lambda>r. row_host r = None) rs)"

text \<open>
  Modelled from the spec: the node and edge counts of the graph store of \<open>src.addnode\<close>
  (section 8), and the absence of a second node under one key or of a second copy of an
  edge (section 3).
\<close>

definition node_count :: "graph \<Rightarrow> nat" where
  "node_count g = length (fqdns g) + length (domains g) + length (ips g)"

definition edge_count :: "graph \<Rightarrow> nat" where
  "edge_count g = length (belongs_to g) + length (resolves_to g)"

definition no_duplicates :: "graph \<Rightarrow> bool" where
  "no_duplicates g =
     (distinct (map fst (fqdns g)) \<and> distinct (map fst (domains g)) \<and>
      distinct (map fst (ips g)) \<and> distinct (belongs_to g) \<and> distinct (resolves_to g))"

text \<open>
  Modelled from the spec: LabelPropagator (section 4.2). For a row \<open>(host, engagement)\<close>
  whose host is an FQDN node: \<open>isMalicious = true\<close> and
  \<open>malEngagement = max(existing, incoming)\<close>; a host absent from the graph is skipped.
  The call returns the number of FQDN nodes updated.
\<close>

definition label_node :: "rat \<Rightarrow> fqdn_node \<Rightarrow> fqdn_node" where
  "label_node eng n = n\<lparr>isMalicious := True, malEngagement := max (malEngagement n) eng\<rparr>"

text \<open>
  Modelled from the spec: one row of \<open>update_labels\<close> (section 4.2): the FQDN node of
  the host is labelled when it exists; a host absent from the graph is skipped.
\<close>

definition apply_label :: "string \<times> rat \<Rightarrow> graph \<Rightarrow> graph" where
  "apply_label row g =
     (case map_of (fqdns g) (fst row) of
        None \<Rightarrow> g
      | Some n \<Rightarrow> g\<lparr>fqdns := AList.update (fst row) (label_node (snd row) n) (fqdns g)\<rparr>)"

text \<open>
  Modelled from the spec: \<open>apply_malicious_history\<close> (section 4.2; \<open>update_labels\<close> of
  \<open>src.addnode\<close>), the rows applied in order, and the number of FQDN nodes updated.
\<close>

definition apply_malicious_history :: "(string \<times> rat) list \<Rightarrow> graph \<Rightarrow> graph \<times> nat" where
  "apply_malicious_history malicious_rows g =
     (fold apply_label malicious_rows g,
      length (remdups (filter (\<lambda>h. map_of (fqdns g) h \<noteq> None) (map fst malicious_rows))))"

text \<open>
  Modelled from the spec: a ratio aggregate (section 4.3 and section 7). Division raises
  on a zero divisor; the ratio is defined as 0 when the count is 0.
\<close>

definition checked_div :: "rat \<Rightarrow> rat \<Rightarrow> exn + rat" where
  "checked_div a b = (if b = 0 then Inl ZeroDivisionError else Inr (a / b))"

text \<open>
  Modelled from the spec: the ratio aggregates of \<open>update_domMal_feats\<close> (section 4.3):
  0 when the count is 0, the checked quotient otherwise.
\<close>

definition ratio_aggregate :: "rat \<Rightarrow> nat \<Rightarrow> exn + rat" where
  "ratio_aggregate a cnt = (if cnt = 0 then Inr 0 else checked_div a (of_nat cnt))"

text \<open>
  Modelled from the spec: the maximum, minimum and average aggregates of
  \<open>update_domMal_feats\<close> (section 4.3) over the scores of the neighbours; absent for an
  empty neighbourhood.
\<close>

definition list_max :: "rat list \<Rightarrow> rat option" where
  "list_max xs = (case xs of [] \<Rightarrow> None | x # ys \<Rightarrow> Some (fold max ys x))"

definition list_min :: "rat list \<Rightarrow> rat option" where
  "list_min xs = (case xs of [] \<Rightarrow> None | x # ys \<Rightarrow> Some (fold min ys x))"

definition list_avg :: "rat list \<Rightarrow> rat option" where
  "list_avg xs = (case xs of [] \<Rightarrow> None | x # ys \<Rightarrow> Some (sum_list xs / of_nat (length xs)))"

text \<open>
  Modelled from the spec: the neighbourhood of a Domain node (section 4.3): its FQDN
  nodes F(D) and the IPs I(D) that they resolve to.
\<close>

definition dom_fqdns :: "graph \<Rightarrow> string \<Rightarrow> fqdn_node list" where
  "dom_fqdns g d = map snd (filter (\<lambda>p. (fst p, d) \<in> set (belongs_to g)) (fqdns g))"

text \<open>
  Modelled from the spec: I(D) of section 4.3 (\<open>update_domMal_feats\<close>), the distinct IPs
  that the FQDNs of the Domain node resolve to.
\<close>

definition dom_ips :: "graph \<Rightarrow> string \<Rightarrow> string list" where
  "dom_ips g d =
     remdups (map snd (filter (\<lambda>e. (fst e, d) \<in> set (belongs_to g)) (resolves_to g)))"

text \<open>
  Modelled from the spec: the aggregate of one Domain node (section 4.3). The composite
  maliciousness of an FQDN is the parameter \<open>mal\<close>, a policy that the specification
  leaves open.
\<close>

definition dom_aggregate :: "(fqdn_node \<Rightarrow> rat) \<Rightarrow> graph \<Rightarrow> string \<Rightarrow> exn + dom_feats" where
  "dom_aggregate mal g d =
     (let ns = dom_fqdns g d;
          cnt = length ns;
          cntmal = length (filter isMalicious ns);
          engs = map malEngagement ns;
          pops = map popularity ns;
          mals = map mal ns
      in case ratio_aggregate (of_nat cntmal) cnt of
           Inl e \<Rightarrow> Inl e
         | Inr fratio \<Rightarrow>
            (case ratio_aggregate (sum_list engs) cnt of
               Inl e \<Rightarrow> Inl e
             | Inr eratio \<Rightarrow>
                 Inr \<lparr>cntFQDN = cnt, cntIP = length (dom_ips g d), cntMalFQDNs = cntmal,
                      sumMalEng = sum_list engs, maxMalEng = list_max engs,
                      minMalEng = list_min engs, avgMalEng = list_avg engs,
                      maxCisco = list_max pops, minCisco = list_min pops,
                      avgCisco = list_avg pops,
                      sumMal = sum_list mals, maxMal = list_max mals,
                      minMal = list_min mals, avgMal = list_avg mals,
                      malFQDN_ratio = fratio, malEng_ratio = eratio\<rparr>))"

text \<open>
  Modelled from the spec: a pass of NeighborAggregator (section 4.3) recomputes the
  aggregate of every node of one kind from the current graph and writes it on that node;
  an error in one aggregate fails the pass. The aggregate of an IP node is the parameter
  \<open>ip_aggregate\<close>.
\<close>

fun aggregate_all ::
  "(string \<Rightarrow> exn + 'a) \<Rightarrow> (string \<times> 'a option) list \<Rightarrow> exn + (string \<times> 'a option) list" where
  "aggregate_all f [] = Inr []"
| "aggregate_all f (p # rest) =
     (case f (fst p) of
        Inl e \<Rightarrow> Inl e
      | Inr a \<Rightarrow>
         (case aggregate_all f rest of
            Inl e \<Rightarrow> Inl e
          | Inr rest' \<Rightarrow> Inr ((fst p, Some a) # rest')))"

text \<open>
  Modelled from the spec: the Domain pass (\<open>update_domMal_feats\<close>, section 4.3).
\<close>

definition domain_pass :: "(fqdn_node \<Rightarrow> rat) \<Rightarrow> graph \<Rightarrow> exn + graph" where
  "domain_pass mal g =
     (case aggregate_all (dom_aggregate mal g) (domains g) of
        Inl e \<Rightarrow> Inl e
      | Inr ds \<Rightarrow> Inr (g\<lparr>domains := ds\<rparr>))"

text \<open>
  Modelled from the spec: the IP pass (\<open>update_ipMal_feats\<close>, section 4.3).
\<close>

definition ip_pass :: "(graph \<Rightarrow> string \<Rightarrow> exn + ip_feats) \<Rightarrow> graph \<Rightarrow> exn + graph" where
  "ip_pass ip_aggregate g =
     (case aggregate_all (ip_aggregate g) (ips g) of
        Inl e \<Rightarrow> Inl e
      | Inr is \<Rightarrow> Inr (g\<lparr>ips := is\<rparr>))"


text \<open>
  Modelled from the spec: the nodes of the property graph of section 3 as
  \<open>gen_len2mal_score\<close> walks them: FQDN, Domain and IP nodes, each under its key.
\<close>

datatype node = FQDN_node string | Domain_node string | IP_node string

text \<open>
  Modelled from the spec: the relationships of section 3 as \<open>gen_len2mal_score\<close> walks
  them, in both directions: BELONGS\_TO joins an FQDN node and a Domain node,
  RESOLVES\_TO joins an FQDN node and an IP node; nothing joins two FQDN nodes.
\<close>

fun linked :: "graph \<Rightarrow> node \<Rightarrow> node \<Rightarrow> bool" where
  "linked g (FQDN_node f) (Domain_node d) = ((f, d) \<in> set (belongs_to g))"
| "linked g (Domain_node d) (FQDN_node f) = ((f, d) \<in> set (belongs_to g))"
| "linked g (FQDN_node f) (IP_node i) = ((f, i) \<in> set (resolves_to g))"
| "linked g (IP_node i) (FQDN_node f) = ((f, i) \<in> set (resolves_to g))"
| "linked g a b = False"

text \<open>
  Modelled from the spec: the nodes that \<open>gen_len2mal_score\<close> can reach, the end points
  of the relationships of the graph of section 3.
\<close>

definition linked_nodes :: "graph \<Rightarrow> node list" where
  "linked_nodes g =
     remdups (map (\<lambda>e. FQDN_node (fst e)) (belongs_to g) @
              map (\<lambda>e. Domain_node (snd e)) (belongs_to g) @
              map (\<lambda>e. FQDN_node (fst e)) (resolves_to g) @
              map (\<lambda>e. IP_node (snd e)) (resolves_to g))"

text \<open>
  Modelled from the spec: the breadth-first search of \<open>gen_len2mal_score\<close>
  (section 4.4), level by level from a frontier, up to a bounded search radius; \<open>d\<close> is
  the hop count of the frontier. The result is the hop-distance of \<open>tgt\<close>, or nothing
  when \<open>tgt\<close> is not reached within the radius. A hop is one relationship of the graph
  of section 3, so that two FQDNs on one Domain or IP node are two hops apart. Section 4.4
  words such a pair as distance 1; the output recorded in the notebook
  (\<open>recorded_datadf\<close> below) has \<open>minlen2malFQDN = 2\<close> for an FQDN whose Domain holds a
  malicious FQDN, a value that one hop per shared node cannot give, and the search counts
  as the recorded output does.
\<close>

fun search :: "graph \<Rightarrow> node \<Rightarrow> nat \<Rightarrow> nat \<Rightarrow> node list \<Rightarrow> node list \<Rightarrow> nat option" where
  "search g tgt 0 d visited frontier = (if tgt \<in> set frontier then Some d else None)"
| "search g tgt (Suc radius) d visited frontier =
     (if tgt \<in> set frontier then Some d
      else let visited' = frontier @ visited;
               next = filter (\<lambda>x. x \<notin> set visited' \<and> list_ex (\<lambda>y. linked g y x) frontier)
                             (linked_nodes g)
           in if next = [] then None else search g tgt radius (Suc d) visited' next)"

text \<open>
  Modelled from the spec: the hop-distance of \<open>gen_len2mal_score\<close> (section 4.4) from
  the FQDN \<open>src\<close> to the FQDN \<open>tgt\<close> within the radius.
\<close>

definition hop_distance :: "nat \<Rightarrow> graph \<Rightarrow> string \<Rightarrow> string \<Rightarrow> nat option" where
  "hop_distance radius g src tgt = search g (FQDN_node tgt) radius 0 [] [FQDN_node src]"


text \<open>
  Modelled from the spec: a row of the distance-score export of \<open>gen_len2mal_score\<close>
  (section 4.4), with the column names of the feature file.
\<close>

record len2mal =
  minlen2malFQDN :: nat
  avglen2malFQDN :: rat
  maxlen2malFQDN :: nat

text \<open>
  Modelled from the spec: the malicious label as \<open>gen_len2mal_score\<close> reads it
  (section 4.4): an FQDN node whose \<open>isMalicious\<close> is true.
\<close>

definition is_malicious :: "graph \<Rightarrow> string \<Rightarrow> bool" where
  "is_malicious g f = (case map_of (fqdns g) f of None \<Rightarrow> False | Some n \<Rightarrow> isMalicious n)"

text \<open>
  Modelled from the spec: the malicious seeds of \<open>gen_len2mal_score\<close> (section 4.4),
  the FQDN keys that carry the label.
\<close>

definition seeds :: "graph \<Rightarrow> string list" where
  "seeds g = filter (is_malicious g) (remdups (map fst (fqdns g)))"

text \<open>
  Modelled from the spec: the scores of one target in \<open>gen_len2mal_score\<close>
  (section 4.4). A target that is itself malicious has distance 0; otherwise \<open>min\<close>,
  \<open>avg\<close> and \<open>max\<close> range over the malicious FQDNs reached within the radius, and all
  three are the sentinel when none is reached.
\<close>

definition score_one :: "nat \<Rightarrow> nat \<Rightarrow> graph \<Rightarrow> string \<Rightarrow> len2mal" where
  "score_one radius sentinel g t =
     (if is_malicious g t
      then \<lparr>minlen2malFQDN = 0, avglen2malFQDN = 0, maxlen2malFQDN = 0\<rparr>
      else (case List.map_filter (hop_distance radius g t) (seeds g) of
              [] \<Rightarrow> \<lparr>minlen2malFQDN = sentinel, avglen2malFQDN = of_nat sentinel,
                     maxlen2malFQDN = sentinel\<rparr>
            | d # ds \<Rightarrow>
                \<lparr>minlen2malFQDN = fold min ds d,
                 avglen2malFQDN = of_nat (sum_list (d # ds)) / of_nat (length (d # ds)),
                 maxlen2malFQDN = fold max ds d\<rparr>))"

text \<open>
  Modelled from the spec: \<open>score_distance(target_fqdns)\<close> (section 4.4;
  \<open>gen_len2mal_score\<close>), one row of scores per target.
\<close>

definition score_distance :: "nat \<Rightarrow> nat \<Rightarrow> graph \<Rightarrow> string list \<Rightarrow> (string \<times> len2mal) list" where
  "score_distance radius sentinel g target_fqdns =
     map (\<lambda>t. (t, score_one radius sentinel g t)) target_fqdns"

text \<open>
  Modelled from the spec: the passes that follow the upsert within a run (sections 2
  and 5), applied to the shared graph store. Distance scoring reads the store and returns
  its scores; it writes nothing.
\<close>

datatype graph_pass =
    Propagate "(string \<times> rat) list"
  | Domain_pass
  | Ip_pass
  | Score_distance nat nat "string list"

text \<open>
  Modelled from the spec: one pass on the store (\<open>update_labels\<close>,
  \<open>update_domMal_feats\<close>, \<open>update_ipMal_feats\<close> of \<open>src.addnode\<close>, and
  \<open>gen_len2mal_score\<close>), sections 4.2 to 4.4.
\<close>

fun run_pass ::
  "(fqdn_node \<Rightarrow> rat) \<Rightarrow> (graph \<Rightarrow> string \<Rightarrow> exn + ip_feats) \<Rightarrow> graph_pass \<Rightarrow> graph \<Rightarrow> exn + graph" where
  "run_pass mal ip_aggregate (Propagate malicious_rows) g =
     Inr (fst (apply_malicious_history malicious_rows g))"
| "run_pass mal ip_aggregate Domain_pass g = domain_pass mal g"
| "run_pass mal ip_aggregate Ip_pass g = ip_pass ip_aggregate g"
| "run_pass mal ip_aggregate (Score_distance radius sentinel target_fqdns) g =
     (case score_distance radius sentinel g target_fqdns of scores \<Rightarrow> Inr g)"

text \<open>
  Modelled from the spec: a sequence of passes on the store (section 5); an error ends
  the run.
\<close>

fun run_passes ::
  "(fqdn_node \<Rightarrow> rat) \<Rightarrow> (graph \<Rightarrow> string \<Rightarrow> exn + ip_feats) \<Rightarrow> graph_pass list \<Rightarrow> graph \<Rightarrow> exn + graph" where
  "run_passes mal ip_aggregate [] g = Inr g"
| "run_passes mal ip_aggregate (p # ps) g =
     (case run_pass mal ip_aggregate p g of
        Inl e \<Rightarrow> Inl e
      | Inr g' \<Rightarrow> run_passes mal ip_aggregate ps g')"

text \<open>
  Modelled from the spec: the end-to-end example of section 8, built with the model of
  \<open>add_nodes\<close> and \<open>update_labels\<close>: \<open>a.example.com\<close> and
  \<open>b.evil.com\<close> on the IP \<open>1.1.1.1\<close>, \<open>b.evil.com\<close> in the malicious list with
  engagement 5.
\<close>

definition example_rows :: "batch_row list" where
  "example_rows =
     [\<lparr>row_host = Some ''a.example.com'', row_server_ip = ''1.1.1.1'',
       row_registered_domain = ''example.com'', row_isIP = False, row_logday = 18716\<rparr>,
      \<lparr>row_host = Some ''b.evil.com'', row_server_ip = ''1.1.1.1'',
       row_registered_domain = ''evil.com'', row_isIP = False, row_logday = 18716\<rparr>]"

text \<open>
  Modelled from the spec: the graph of the end-to-end example of section 8, after the
  upsert of its two rows and the label propagation (models of \<open>add_nodes\<close> and
  \<open>update_labels\<close>).
\<close>

definition example_graph :: graph where
  "example_graph =
     fst (apply_malicious_history [(''b.evil.com'', 5)] (upsert_batch example_rows empty_graph))"

text \<open>
  Modelled from the spec: a graph of the store of \<open>src.addnode\<close> with a Domain node
  without FQDN children, added to the example graph: the case
  \<open>cntFQDN = 0\<close> of the ratio aggregates.
\<close>

definition parked_graph :: graph where
  "parked_graph = example_graph\<lparr>domains := domains example_graph @ [(''parked.org'', None)]\<rparr>"

text \<open>
  Modelled from the spec: what the upsert of a row (section 4.1, \<open>add_nodes\<close>) leaves in
  the graph. A row is settled in a graph when the graph already holds everything that the upsert of
  the row would write: the FQDN node with a day at least the row's, the Domain node and
  the BELONGS\_TO edge unless \<open>isIP\<close>, the IP node and the RESOLVES\_TO edge.
\<close>

definition settled :: "batch_row \<Rightarrow> graph \<Rightarrow> bool" where
  "settled r g =
     (case row_host r of
        None \<Rightarrow> True
      | Some h \<Rightarrow>
          (\<exists>n. map_of (fqdns g) h = Some n \<and> row_logday r \<le> logday n) \<and>
          (row_isIP r \<or> (map_of (domains g) (row_registered_domain r) \<noteq> None \<and>
                          (h, row_registered_domain r) \<in> set (belongs_to g))) \<and>
          map_of (ips g) (row_server_ip r) \<noteq> None \<and>
          (h, row_server_ip r) \<in> set (resolves_to g))"

section \<open>Output recorded in the notebook\<close>




section \<open>Sample inputs\<close>

text \<open>Two daily batches of one row that differ in the client address only.\<close>

definition batch1 :: frame where
  "batch1 = \<lparr>columns = [''host'', ''id_orig_h'', ''id_resp_h''],
             records = [[Str ''pico.eset.com'', Str ''10.0.0.1'', Str ''91.228.166.13'']]\<rparr>"

definition batch2 :: frame where
  "batch2 = \<lparr>columns = [''host'', ''id_orig_h'', ''id_resp_h''],
             records = [[Str ''pico.eset.com'', Str ''10.0.0.2'', Str ''91.228.166.13'']]\<rparr>"




text \<open>A daily batch of one row whose host is a literal IPv4 address.\<close>

definition batch_ip :: frame where
  "batch_ip = \<lparr>columns = [''host'', ''id_orig_h'', ''id_resp_h''],
               records = [[Str ''104.192.108.134'', Str ''10.0.0.1'', Str ''104.192.108.134'']]\<rparr>"

section \<open>Results\<close>

lemma ipaddress_unbound: "load_global nb_globals ''ipaddress'' = Inl (NameError ''ipaddress'')"
  by (simp add: load_global_def nb_globals_def cell1_names_def cell3_names_def
      cell5_names_def cell6_names_def cell8_names_def)

lemma tldextract_bound: "load_global nb_globals ''tldextract'' = Inr ()"
  by (simp add: load_global_def nb_globals_def cell1_names_def cell3_names_def
      cell5_names_def cell6_names_def cell8_names_def)

lemma isIP_nb_globals: "isIP nb_globals ip_address dom_text = 0"
  by (simp add: isIP_def ipaddress_unbound)

lemma isIP_when_imported:
  "isIP (''ipaddress'' # globals) ip_address dom_text =
     (case ip_address dom_text of Inl e \<Rightarrow> 0 | Inr a \<Rightarrow> 1)"
  by (simp add: isIP_def load_global_def)

lemma ipv4_literal_example: "ipv4_literal ''104.192.108.134''"
  by code_simp

text \<open>
  C1 (fails on the code). The claim: a host that is a literal IP address is marked
  \<open>isIP = 1\<close>. In the notebook the name \<open>ipaddress\<close> is never imported, so the
  \<open>try\<close> body raises \<open>NameError\<close> before the parser is reached and the bare
  \<open>except\<close> returns 0: for the host \<open>104.192.108.134\<close> of the sample batch, a literal
  IPv4 address, \<open>isIP\<close> is 0 whatever the parser would answer, while with the module
  bound the same call returns 1 as soon as the parser accepts the string. The row of that
  host in the graph-input table of cell 8 carries \<open>isIP = 0\<close>, even with a parser that
  accepts every input.
\<close>

theorem C1_isIP_returns_0_for_ip_literal:
  "ipv4_literal ''104.192.108.134''
   \<and> isIP nb_globals ip_address (Str ''104.192.108.134'') = 0
   \<and> isIP (''ipaddress'' # nb_globals) (\<lambda>t. Inr ()) (Str ''104.192.108.134'') = 1
   \<and> cell8_graphdf (\<lambda>logdf ciscodf. Inr logdf) (\<lambda>t. Inl LibraryError) (\<lambda>t. Inr ())
         batch_ip ciscodf (Str ''2021-03-30'') =
       Inr \<lparr>columns = [''host'', ''id_resp_h'', ''logday'', ''domain'', ''isIP''],
            records = [[Str ''104.192.108.134'', Str ''104.192.108.134'', Str ''2021-03-30'',
                        Str ''104.192.108.134'', Num 0]]\<rparr>"
proof -
  have "cell8_graphdf (\<lambda>logdf ciscodf. Inr logdf) (\<lambda>t. Inl LibraryError) (\<lambda>t. Inr ())
         batch_ip ciscodf (Str ''2021-03-30'') =
       Inr \<lparr>columns = [''host'', ''id_resp_h'', ''logday'', ''domain'', ''isIP''],
            records = [[Str ''104.192.108.134'', Str ''104.192.108.134'', Str ''2021-03-30'',
                        Str ''104.192.108.134'', Num 0]]\<rparr>"
    by (simp add: cell8_graphdf_def prepare_graph_inputdata_def drop_column_def
        set_column_def getcol_def cell_at_def batch_ip_def isIP_nb_globals
        parse_reg_dom_def tldextract_bound Let_def)
  then show ?thesis
    using ipv4_literal_example by (simp add: isIP_nb_globals isIP_when_imported)
qed

text \<open>
  C7. For every host value, \<open>parse_reg_dom\<close> as run in the notebook returns the
  registered domain that \<open>tldextract\<close> extracts when the extraction succeeds with a
  non-empty registered domain, and returns its input unchanged when the extraction raises
  or the registered domain is the empty string.
\<close>

theorem C7_parse_reg_dom:
  "(\<forall>ext. extract text = Inr ext \<and> registered_domain ext \<noteq> '''' \<longrightarrow>
       parse_reg_dom nb_globals extract text = Str (registered_domain ext))
   \<and> (\<forall>e. extract text = Inl e \<longrightarrow> parse_reg_dom nb_globals extract text = text)
   \<and> (\<forall>ext. extract text = Inr ext \<and> registered_domain ext = '''' \<longrightarrow>
       parse_reg_dom nb_globals extract text = text)"
  by (simp add: parse_reg_dom_def tldextract_bound)

theorem C7_parse_reg_dom_witness:
  "parse_reg_dom nb_globals
     (\<lambda>t. if t = Str ''a.example.com'' then Inr \<lparr>registered_domain = ''example.com''\<rparr>
          else if t = Str ''localhost'' then Inr \<lparr>registered_domain = ''''\<rparr>
          else Inl LibraryError)
     (Str ''a.example.com'') = Str ''example.com''
   \<and> parse_reg_dom nb_globals
     (\<lambda>t. if t = Str ''a.example.com'' then Inr \<lparr>registered_domain = ''example.com''\<rparr>
          else if t = Str ''localhost'' then Inr \<lparr>registered_domain = ''''\<rparr>
          else Inl LibraryError)
     (Str ''localhost'') = Str ''localhost''
   \<and> parse_reg_dom nb_globals
     (\<lambda>t. if t = Str ''a.example.com'' then Inr \<lparr>registered_domain = ''example.com''\<rparr>
          else if t = Str ''localhost'' then Inr \<lparr>registered_domain = ''''\<rparr>
          else Inl LibraryError)
     NaN = NaN"
  using C7_parse_reg_dom
    [of "\<lambda>t. if t = Str ''a.example.com'' then Inr \<lparr>registered_domain = ''example.com''\<rparr>
          else if t = Str ''localhost'' then Inr \<lparr>registered_domain = ''''\<rparr>
          else Inl LibraryError" "Str ''a.example.com''"]
    C7_parse_reg_dom
    [of "\<lambda>t. if t = Str ''a.example.com'' then Inr \<lparr>registered_domain = ''example.com''\<rparr>
          else if t = Str ''localhost'' then Inr \<lparr>registered_domain = ''''\<rparr>
          else Inl LibraryError" "Str ''localhost''"]
    C7_parse_reg_dom
    [of "\<lambda>t. if t = Str ''a.example.com'' then Inr \<lparr>registered_domain = ''example.com''\<rparr>
          else if t = Str ''localhost'' then Inr \<lparr>registered_domain = ''''\<rparr>
          else Inl LibraryError" "NaN"]
  by simp

subsection \<open>The client column\<close>

lemma drop_row_cong:
  "length r = length cs \<Longrightarrow> length s = length cs \<Longrightarrow>
   (\<forall>j < length cs. cs ! j \<noteq> c \<longrightarrow> r ! j = s ! j) \<Longrightarrow>
   map snd (filter (\<lambda>p. fst p \<noteq> c) (zip cs r)) = map snd (filter (\<lambda>p. fst p \<noteq> c) (zip cs s))"
proof (induction cs arbitrary: r s)
  case Nil
  then show ?case by simp
next
  case (Cons x xs)
  from Cons.prems(1) obtain r0 rs where r: "r = r0 # rs" by (cases r) auto
  from Cons.prems(2) obtain s0 ss where s: "s = s0 # ss" by (cases s) auto
  have tl: "\<forall>j < length xs. xs ! j \<noteq> c \<longrightarrow> rs ! j = ss ! j"
  proof (intro allI impI)
    fix j assume "j < length xs" "xs ! j \<noteq> c"
    with Cons.prems(3)[rule_format, of "Suc j"] show "rs ! j = ss ! j"
      by (simp add: r s)
  qed
  have hd: "x \<noteq> c \<Longrightarrow> r0 = s0"
    using Cons.prems(3)[rule_format, of 0] by (simp add: r s)
  have "map snd (filter (\<lambda>p. fst p \<noteq> c) (zip xs rs)) = map snd (filter (\<lambda>p. fst p \<noteq> c) (zip xs ss))"
    using Cons.IH[of rs ss] Cons.prems(1,2) tl by (simp add: r s)
  then show ?case using hd by (simp add: r s)
qed

lemma same_except_drop:
  assumes "wf_frame a" "wf_frame b" "same_except c a b"
  shows "drop_column c a = drop_column c b"
proof -
  have cols: "columns a = columns b" and len: "length (records a) = length (records b)"
    using assms(3) by (simp_all add: same_except_def)
  have cells: "\<And>i j. i < length (records a) \<Longrightarrow> j < length (columns a) \<Longrightarrow>
      columns a ! j \<noteq> c \<Longrightarrow> records a ! i ! j = records b ! i ! j"
    using assms(3) by (simp add: same_except_def)
  let ?f = "\<lambda>r. map snd (filter (\<lambda>p. fst p \<noteq> c) (zip (columns a) r))"
  have "map ?f (records a) = map ?f (records b)"
  proof (rule nth_equalityI)
    show "length (map ?f (records a)) = length (map ?f (records b))" using len by simp
  next
    fix i assume "i < length (map ?f (records a))"
    then have i: "i < length (records a)" by simp
    then have ib: "i < length (records b)" using len by simp
    have la: "length (records a ! i) = length (columns a)"
      using assms(1) i by (simp add: wf_frame_def list_all_length)
    have lb: "length (records b ! i) = length (columns a)"
      using assms(2) ib cols by (simp add: wf_frame_def list_all_length)
    have "?f (records a ! i) = ?f (records b ! i)"
      by (rule drop_row_cong[OF la lb]) (simp add: cells i)
    then show "map ?f (records a) ! i = map ?f (records b) ! i"
      using i ib by simp
  qed
  then show ?thesis by (simp add: drop_column_def cols)
qed

text \<open>
  C9. The client address column \<open>id_orig_h\<close> never reaches the graph input: two
  rectangular daily batches that differ only in the cells of that column give the same
  result of cell 8 (the same table \<open>graphdf\<close> written for the graph database, or the
  same exception), whatever \<open>merge_cisco\<close>, \<open>tldextract.extract\<close> and
  \<open>ipaddress.ip_address\<close> compute, because the column is dropped before
  \<open>prepare_graph_inputdata\<close> is called.
\<close>

theorem C9_client_column_never_reaches_graph:
  assumes "wf_frame b1" "wf_frame b2" "same_except ''id_orig_h'' b1 b2"
  shows "cell8_graphdf merge_cisco extract ip_address b1 cisco_1m day =
         cell8_graphdf merge_cisco extract ip_address b2 cisco_1m day"
  using same_except_drop[OF assms] by (simp add: cell8_graphdf_def)

lemma wf_batch1: "wf_frame batch1"
  by (simp add: wf_frame_def batch1_def)

lemma wf_batch2: "wf_frame batch2"
  by (simp add: wf_frame_def batch2_def)

lemma batch1_batch2_same_except: "same_except ''id_orig_h'' batch1 batch2"
  by (simp add: same_except_def batch1_def batch2_def nth_Cons' less_Suc_eq)

theorem C9_client_column_never_reaches_graph_witness:
  "wf_frame batch1 \<and> wf_frame batch2 \<and> same_except ''id_orig_h'' batch1 batch2 \<and> batch1 \<noteq> batch2 \<and>
   cell8_graphdf (\<lambda>a b. Inr a) (\<lambda>t. Inl LibraryError) (\<lambda>t. Inr ()) batch1 batch1 (Str ''2021-03-30'') =
   cell8_graphdf (\<lambda>a b. Inr a) (\<lambda>t. Inl LibraryError) (\<lambda>t. Inr ()) batch2 batch1 (Str ''2021-03-30'')"
  using C9_client_column_never_reaches_graph
      [OF wf_batch1 wf_batch2 batch1_batch2_same_except,
       of "\<lambda>a b. Inr a" "\<lambda>t. Inl LibraryError" "\<lambda>t. Inr ()" batch1 "Str ''2021-03-30''"]
    wf_batch1 wf_batch2 batch1_batch2_same_except
  by (simp add: batch1_def batch2_def)

subsection \<open>The two readings of the popularity file\<close>













subsection \<open>Order of the passes\<close>

lemma run_calls_trace: "\<exists>qs. prefix qs ps \<and> snd (run_calls impl ps s tr) = tr @ qs"
proof (induction ps arbitrary: s tr)
  case Nil
  then show ?case by simp
next
  case (Cons p ps)
  show ?case
  proof (cases "impl p s")
    case (Inl e)
    then have "snd (run_calls impl (p # ps) s tr) = tr @ [p]" by simp
    then show ?thesis by (intro exI[of _ "[p]"]) simp
  next
    case (Inr s')
    from Cons.IH[of s' "tr @ [p]"] obtain qs where
      "prefix qs ps" "snd (run_calls impl ps s' (tr @ [p])) = (tr @ [p]) @ qs" by blast
    then show ?thesis using Inr by (intro exI[of _ "p # qs"]) simp
  qed
qed

lemma trace_prefix: "prefix (snd (run_notebook impl s)) notebook_calls"
  using run_calls_trace[of notebook_calls impl s "[]"] by (auto simp: run_notebook_def)

lemma order_on_prefixes:
  "list_all (\<lambda>tr. (tr = [] \<or> hd tr = Add_nodes)
      \<and> runs_before Add_nodes Update_labels tr
      \<and> runs_before Update_labels Update_domMal_feats tr
      \<and> runs_before Update_labels Update_ipMal_feats tr
      \<and> runs_before Update_domMal_feats Update_ipMal_feats tr
      \<and> runs_before Update_ipMal_feats Domscore_to_csv tr
      \<and> runs_before Update_ipMal_feats Ipscore_to_csv tr
      \<and> runs_before Update_labels Gen_len2mal_score tr) (prefixes notebook_calls)"
  by (simp add: notebook_calls_def cell12_def cell13_def cell14_def cell17_19_def runs_before_def)

text \<open>
  C8. In every run of the notebook, also one that a raising call cuts short, the calls
  are started in the order of the cells: \<open>add_nodes\<close> (graph upsert) first and before
  \<open>update_labels\<close> (label propagation), that before \<open>update_domMal_feats\<close> (Domain
  aggregation), that before \<open>update_ipMal_feats\<close> (IP aggregation), that before the two
  exports \<open>domscore_to_csv\<close> and \<open>ipscore_to_csv\<close>; and \<open>gen_len2mal_score\<close> (distance
  scoring) is started only after \<open>update_labels\<close>. So no aggregation and no distance pass
  is started before label propagation.
\<close>

theorem C8_pass_order:
  "(snd (run_notebook impl s) = [] \<or> hd (snd (run_notebook impl s)) = Add_nodes)
      \<and> runs_before Add_nodes Update_labels (snd (run_notebook impl s))
      \<and> runs_before Update_labels Update_domMal_feats (snd (run_notebook impl s))
      \<and> runs_before Update_labels Update_ipMal_feats (snd (run_notebook impl s))
      \<and> runs_before Update_domMal_feats Update_ipMal_feats (snd (run_notebook impl s))
      \<and> runs_before Update_ipMal_feats Domscore_to_csv (snd (run_notebook impl s))
      \<and> runs_before Update_ipMal_feats Ipscore_to_csv (snd (run_notebook impl s))
      \<and> runs_before Update_labels Gen_len2mal_score (snd (run_notebook impl s))"
proof -
  have "snd (run_notebook impl s) \<in> set (prefixes notebook_calls)"
    using trace_prefix by simp
  with order_on_prefixes show ?thesis
    unfolding list_all_iff by blast
qed

lemma complete_trace:
  "snd (run_notebook (\<lambda>p s. Inr s) ()) = notebook_calls"
  by (simp add: run_notebook_def notebook_calls_def cell12_def cell13_def cell14_def cell17_19_def)

theorem C8_pass_order_witness:
  "snd (run_notebook (\<lambda>p s. Inr s) ()) = [Add_nodes, Update_labels, Update_domMal_feats, Update_ipMal_feats,
  Domscore_to_csv, Ipscore_to_csv, Close, Gen_dom_graphscore, Gen_ip_graphscore, Gen_len2mal_score]
   \<and> Gen_len2mal_score \<in> set (snd (run_notebook (\<lambda>p s. Inr s) ()))
   \<and> Update_labels \<in> set (takeWhile (\<lambda>x. x \<noteq> Gen_len2mal_score) (snd (run_notebook (\<lambda>p s. Inr s) ())))"
  using C8_pass_order[of "\<lambda>p s. Inr s" "()"]
  by (simp add: complete_trace notebook_calls_def cell12_def cell13_def cell14_def cell17_19_def runs_before_def)

subsection \<open>Assembly of the wide table\<close>


lemma col_index_None: "col_index cs c = None \<longleftrightarrow> c \<notin> set cs"
  by (induction cs) auto





















subsection \<open>Idempotent upsert\<close>

lemma merge_key_present: "map_of al k \<noteq> None \<Longrightarrow> merge_key k al = al"
  by (auto simp: merge_key_def)

lemma map_of_merge_key: "map_of al k' = Some v \<Longrightarrow> \<exists>y. map_of (merge_key k al) k' = Some y"
  by (auto simp: merge_key_def split: option.splits)

lemma map_of_merge_key_self: "map_of (merge_key k al) k \<noteq> None"
  by (auto simp: merge_key_def map_add_def split: option.splits)

lemma upsert_fqdn_settled:
  "map_of al h = Some n \<Longrightarrow> d \<le> logday n \<Longrightarrow> upsert_fqdn h d al = al"
  by (simp add: upsert_fqdn_def max_absorb1 update_triv)

lemma upsert_fqdn_self: "\<exists>n. map_of (upsert_fqdn h d al) h = Some n \<and> d \<le> logday n"
  by (simp add: upsert_fqdn_def update_conv' split: option.splits)

lemma upsert_fqdn_mono:
  "map_of al h' = Some n \<Longrightarrow>
   \<exists>n'. map_of (upsert_fqdn h d al) h' = Some n' \<and> logday n \<le> logday n'
       \<and> isMalicious n' = isMalicious n \<and> malEngagement n' = malEngagement n"
  by (cases "h = h'") (simp_all add: upsert_fqdn_def update_conv')

lemma settled_upsert_row_id: "settled r g \<Longrightarrow> upsert_row r g = g"
  by (auto simp: settled_def upsert_row_def upsert_fqdn_settled merge_key_present
      split: option.splits)

lemma settled_after_upsert: "settled r (upsert_row r g)"
  using upsert_fqdn_self[of "the (row_host r)" "row_logday r" "fqdns g"]
  by (auto simp: settled_def upsert_row_def map_of_merge_key_self split: option.splits)

lemma settled_preserved: "settled r g \<Longrightarrow> settled r (upsert_row s g)"
proof (cases "row_host r")
  case None
  then show ?thesis by (simp add: settled_def)
next
  case (Some h)
  assume st: "settled r g"
  show ?thesis
  proof (cases "row_host s")
    case None
    then show ?thesis using st by (simp add: upsert_row_def)
  next
    case (Some k)
    from st \<open>row_host r = Some h\<close> obtain n where
      n: "map_of (fqdns g) h = Some n" "row_logday r \<le> logday n"
      by (auto simp: settled_def)
    from upsert_fqdn_mono[OF n(1), of k "row_logday s"] n(2)
    have f: "\<exists>n'. map_of (upsert_fqdn k (row_logday s) (fqdns g)) h = Some n' \<and> row_logday r \<le> logday n'"
      by (auto intro: order_trans)
    show ?thesis using st f \<open>row_host r = Some h\<close> Some
      by (auto simp: settled_def upsert_row_def dest: map_of_merge_key)
  qed
qed

lemma settled_fold: "settled r g \<Longrightarrow> settled r (fold upsert_row rs g)"
  by (induction rs arbitrary: g) (simp_all add: settled_preserved)

lemma all_settled_after_batch: "r \<in> set rs \<Longrightarrow> settled r (fold upsert_row rs g)"
proof (induction rs arbitrary: g)
  case Nil
  then show ?case by simp
next
  case (Cons s rs)
  then show ?case
    by (auto simp: settled_fold settled_after_upsert)
qed

lemma fold_settled_id: "(\<And>r. r \<in> set rs \<Longrightarrow> settled r g) \<Longrightarrow> fold upsert_row rs g = g"
  by (induction rs) (simp_all add: settled_upsert_row_id)

lemma upsert_batch_idem: "upsert_batch rs (upsert_batch rs g) = upsert_batch rs g"
  unfolding upsert_batch_def by (rule fold_settled_id) (rule all_settled_after_batch)

lemma upsert_row_idem: "upsert_row r (upsert_row r g) = upsert_row r g"
  by (rule settled_upsert_row_id) (rule settled_after_upsert)

lemma distinct_merge_key: "distinct (map fst al) \<Longrightarrow> distinct (map fst (merge_key k al))"
  by (auto simp: merge_key_def map_of_eq_None_iff split: option.splits)

lemma no_duplicates_upsert_row: "no_duplicates g \<Longrightarrow> no_duplicates (upsert_row r g)"
  by (auto simp: no_duplicates_def upsert_row_def upsert_fqdn_def distinct_update
      distinct_merge_key split: option.splits)

lemma no_duplicates_upsert_batch: "no_duplicates g \<Longrightarrow> no_duplicates (upsert_batch rs g)"
  unfolding upsert_batch_def
  by (induction rs arbitrary: g) (simp_all add: no_duplicates_upsert_row)

text \<open>
  C5. Upsert is idempotent: for every graph and every batch, applying the batch a second
  time leaves the graph as the first application made it, node for node and edge for edge
  with the same attribute values; the same holds for a single row; the node and edge
  counts are therefore the same; and a graph without duplicate nodes or edges has none
  after the batch was applied twice.
\<close>

theorem C5_upsert_idempotent:
  "upsert_batch rs (upsert_batch rs g) = upsert_batch rs g
   \<and> upsert_row r (upsert_row r g) = upsert_row r g
   \<and> node_count (upsert_batch rs (upsert_batch rs g)) = node_count (upsert_batch rs g)
   \<and> edge_count (upsert_batch rs (upsert_batch rs g)) = edge_count (upsert_batch rs g)
   \<and> (no_duplicates g \<longrightarrow> no_duplicates (upsert_batch rs (upsert_batch rs g)))"
  by (simp add: upsert_batch_idem upsert_row_idem no_duplicates_upsert_batch)

theorem C5_upsert_idempotent_witness:
  "no_duplicates empty_graph
   \<and> no_duplicates (upsert_batch example_rows (upsert_batch example_rows empty_graph))
   \<and> node_count (upsert_batch example_rows (upsert_batch example_rows empty_graph)) = 5
   \<and> edge_count (upsert_batch example_rows (upsert_batch example_rows empty_graph)) = 4"
proof -
  have e: "no_duplicates empty_graph" by (simp add: no_duplicates_def empty_graph_def)
  have n: "node_count (upsert_batch example_rows empty_graph) = 5"
    by (simp add: node_count_def upsert_batch_def upsert_row_def upsert_fqdn_def merge_key_def example_rows_def empty_graph_def)
  have m: "edge_count (upsert_batch example_rows empty_graph) = 4"
    by (simp add: edge_count_def upsert_batch_def upsert_row_def upsert_fqdn_def merge_key_def example_rows_def empty_graph_def)
  note c = C5_upsert_idempotent[of example_rows empty_graph]
  have d: "no_duplicates (upsert_batch example_rows (upsert_batch example_rows empty_graph))"
    using c e by blast
  have "node_count (upsert_batch example_rows (upsert_batch example_rows empty_graph)) = 5"
    using c n by simp
  moreover have "edge_count (upsert_batch example_rows (upsert_batch example_rows empty_graph)) = 4"
    using c m by simp
  ultimately show ?thesis using e d by blast
qed

subsection \<open>Labels and ratio aggregates\<close>

lemma apply_label_keeps:
  assumes "map_of (fqdns g) h = Some n"
  shows "\<exists>n'. map_of (fqdns (apply_label row g)) h = Some n'
            \<and> (isMalicious n \<longrightarrow> isMalicious n') \<and> malEngagement n \<le> malEngagement n'"
proof (cases "map_of (fqdns g) (fst row)")
  case None
  then show ?thesis using assms by (simp add: apply_label_def)
next
  case (Some m)
  show ?thesis
  proof (cases "fst row = h")
    case True
    then show ?thesis using assms Some
      by (simp add: apply_label_def update_conv' label_node_def)
  next
    case False
    then show ?thesis using assms Some
      by (simp add: apply_label_def update_conv')
  qed
qed

lemma fold_apply_label_keeps:
  "map_of (fqdns g) h = Some n \<Longrightarrow>
   \<exists>n'. map_of (fqdns (fold apply_label rows g)) h = Some n'
       \<and> (isMalicious n \<longrightarrow> isMalicious n') \<and> malEngagement n \<le> malEngagement n'"
proof (induction rows arbitrary: g n)
  case Nil
  then show ?case by simp
next
  case (Cons row rows)
  from apply_label_keeps[OF Cons.prems, of row] obtain m where
    m: "map_of (fqdns (apply_label row g)) h = Some m"
       "isMalicious n \<longrightarrow> isMalicious m" "malEngagement n \<le> malEngagement m"
    by blast
  from Cons.IH[OF m(1)] obtain n' where
    "map_of (fqdns (fold apply_label rows (apply_label row g))) h = Some n'"
    "isMalicious m \<longrightarrow> isMalicious n'" "malEngagement m \<le> malEngagement n'"
    by blast
  with m show ?case by (auto intro: order_trans)
qed

lemma domain_pass_fqdns: "domain_pass mal g = Inr g' \<Longrightarrow> fqdns g' = fqdns g"
  by (auto simp: domain_pass_def split: sum.splits)

lemma ip_pass_fqdns: "ip_pass ip_aggregate g = Inr g' \<Longrightarrow> fqdns g' = fqdns g"
  by (auto simp: ip_pass_def split: sum.splits)

lemma run_pass_keeps:
  assumes "run_pass mal ip_aggregate p g = Inr g'" and "map_of (fqdns g) h = Some n"
  shows "\<exists>n'. map_of (fqdns g') h = Some n'
            \<and> (isMalicious n \<longrightarrow> isMalicious n') \<and> malEngagement n \<le> malEngagement n'"
proof (cases p)
  case (Propagate rows)
  then have "g' = fold apply_label rows g"
    using assms(1) by (simp add: apply_malicious_history_def)
  then show ?thesis using fold_apply_label_keeps[OF assms(2)] by simp
next
  case Domain_pass
  then show ?thesis using assms domain_pass_fqdns by auto
next
  case Ip_pass
  then show ?thesis using assms ip_pass_fqdns by auto
next
  case (Score_distance radius sentinel targets)
  then show ?thesis using assms by auto
qed

lemma run_passes_keeps:
  "run_passes mal ip_aggregate ps g = Inr g' \<Longrightarrow> map_of (fqdns g) h = Some n \<Longrightarrow>
   \<exists>n'. map_of (fqdns g') h = Some n'
       \<and> (isMalicious n \<longrightarrow> isMalicious n') \<and> malEngagement n \<le> malEngagement n'"
proof (induction ps arbitrary: g n)
  case Nil
  then show ?case by simp
next
  case (Cons p ps)
  from Cons.prems(1) obtain g1 where
    g1: "run_pass mal ip_aggregate p g = Inr g1" and rest: "run_passes mal ip_aggregate ps g1 = Inr g'"
    by (auto split: sum.splits)
  from run_pass_keeps[OF g1 Cons.prems(2)] obtain m where
    m: "map_of (fqdns g1) h = Some m"
       "isMalicious n \<longrightarrow> isMalicious m" "malEngagement n \<le> malEngagement m"
    by blast
  from Cons.IH[OF rest m(1)] obtain n' where
    "map_of (fqdns g') h = Some n'"
    "isMalicious m \<longrightarrow> isMalicious n'" "malEngagement m \<le> malEngagement n'"
    by blast
  with m show ?case by (auto intro: order_trans)
qed

lemma apply_label_present:
  "map_of (fqdns g) h = Some n \<Longrightarrow>
   map_of (fqdns (apply_label (h, e) g)) h =
     Some (n\<lparr>isMalicious := True, malEngagement := max (malEngagement n) e\<rparr>)"
  by (simp add: apply_label_def update_conv' label_node_def)

lemma apply_label_other:
  "fst row \<noteq> h \<Longrightarrow> map_of (fqdns (apply_label row g)) h = map_of (fqdns g) h"
  by (simp add: apply_label_def update_conv' split: option.splits)

lemma apply_label_absent:
  "map_of (fqdns g) h = None \<Longrightarrow> map_of (fqdns (apply_label row g)) h = None"
  by (auto simp: apply_label_def update_conv' split: option.splits)

lemma fold_apply_label_node:
  "map_of (fqdns g) h = Some n \<Longrightarrow>
   map_of (fqdns (fold apply_label rows g)) h =
     Some (if h \<in> fst ` set rows
           then n\<lparr>isMalicious := True,
                  malEngagement :=
                    fold max (map snd (filter (\<lambda>r. fst r = h) rows)) (malEngagement n)\<rparr>
           else n)"
proof (induction rows arbitrary: g n)
  case Nil
  then show ?case by simp
next
  case (Cons row rows)
  show ?case
  proof (cases "fst row = h")
    case True
    then have row: "row = (h, snd row)" by (cases row) simp
    let ?n1 = "n\<lparr>isMalicious := True, malEngagement := max (malEngagement n) (snd row)\<rparr>"
    have "map_of (fqdns (apply_label row g)) h = Some ?n1"
      using apply_label_present[OF Cons.prems, of "snd row"] row by simp
    moreover have "h \<notin> fst ` set rows \<Longrightarrow> filter (\<lambda>r. fst r = h) rows = []"
      by (auto simp: filter_empty_conv)
    ultimately show ?thesis using Cons.IH[of "apply_label row g" ?n1] True
      by (simp add: max.commute)
  next
    case False
    then have "map_of (fqdns (apply_label row g)) h = Some n"
      using Cons.prems by (simp add: apply_label_other)
    from Cons.IH[OF this] False show ?thesis by simp
  qed
qed

lemma fold_max_Max: "fold max xs (a::rat) = Max (set (a # xs))"
  by (rule Max.set_eq_fold[symmetric])

lemma propagate_node:
  assumes "map_of (fqdns g) h = Some n"
    and "run_pass mal ip_aggregate (Propagate rows) g = Inr g1"
  shows "map_of (fqdns g1) h =
     Some (if h \<in> fst ` set rows
           then n\<lparr>isMalicious := True,
                  malEngagement :=
                    Max (set (malEngagement n # map snd (filter (\<lambda>r. fst r = h) rows)))\<rparr>
           else n)"
proof -
  have "g1 = fold apply_label rows g"
    using assms(2) by (simp add: apply_malicious_history_def)
  then show ?thesis
    using fold_apply_label_node[OF assms(1), of rows] by (simp add: fold_max_Max)
qed

text \<open>
  C4. For every FQDN node: a label-propagation row for its host sets \<open>isMalicious\<close> to
  true and \<open>malEngagement\<close> to the maximum of the existing and the incoming score; a
  whole label-propagation call leaves the node with the maximum of its score and the
  incoming scores of its host, or unchanged when the list does not name the host; the
  Domain pass, the IP pass and distance scoring leave every FQDN node as it is. So over
  every sequence of such passes that runs to its end the node is still there,
  \<open>isMalicious\<close> is still true if it was true, and \<open>malEngagement\<close> is not smaller than
  before.
\<close>

theorem C4_label_monotonic:
  "(run_passes mal ip_aggregate ps g = Inr g' \<and> map_of (fqdns g) h = Some n \<longrightarrow>
      (\<exists>n'. map_of (fqdns g') h = Some n'
           \<and> (isMalicious n \<longrightarrow> isMalicious n') \<and> malEngagement n \<le> malEngagement n'))
   \<and> (map_of (fqdns g) h = Some n \<longrightarrow>
        map_of (fqdns (apply_label (h, e) g)) h =
          Some (n\<lparr>isMalicious := True, malEngagement := max (malEngagement n) e\<rparr>))
   \<and> (map_of (fqdns g) h = Some n \<and>
        run_pass mal ip_aggregate (Propagate malicious_rows) g = Inr g1 \<longrightarrow>
        map_of (fqdns g1) h =
          Some (if h \<in> fst ` set malicious_rows
                then n\<lparr>isMalicious := True,
                       malEngagement :=
                         Max (set (malEngagement n #
                                   map snd (filter (\<lambda>r. fst r = h) malicious_rows)))\<rparr>
                else n))
   \<and> (run_pass mal ip_aggregate Domain_pass g = Inr g2 \<longrightarrow> fqdns g2 = fqdns g)
   \<and> (run_pass mal ip_aggregate Ip_pass g = Inr g3 \<longrightarrow> fqdns g3 = fqdns g)
   \<and> run_pass mal ip_aggregate (Score_distance radius sentinel target_fqdns) g = Inr g"
proof (intro conjI impI)
  assume "run_passes mal ip_aggregate ps g = Inr g' \<and> map_of (fqdns g) h = Some n"
  then show "\<exists>n'. map_of (fqdns g') h = Some n'
           \<and> (isMalicious n \<longrightarrow> isMalicious n') \<and> malEngagement n \<le> malEngagement n'"
    using run_passes_keeps by blast
next
  assume "map_of (fqdns g) h = Some n"
  then show "map_of (fqdns (apply_label (h, e) g)) h =
          Some (n\<lparr>isMalicious := True, malEngagement := max (malEngagement n) e\<rparr>)"
    by (rule apply_label_present)
next
  assume "map_of (fqdns g) h = Some n \<and>
        run_pass mal ip_aggregate (Propagate malicious_rows) g = Inr g1"
  then show "map_of (fqdns g1) h =
          Some (if h \<in> fst ` set malicious_rows
                then n\<lparr>isMalicious := True,
                       malEngagement :=
                         Max (set (malEngagement n #
                                   map snd (filter (\<lambda>r. fst r = h) malicious_rows)))\<rparr>
                else n)"
    using propagate_node by blast
next
  assume "run_pass mal ip_aggregate Domain_pass g = Inr g2"
  then show "fqdns g2 = fqdns g" by (simp add: domain_pass_fqdns)
next
  assume "run_pass mal ip_aggregate Ip_pass g = Inr g3"
  then show "fqdns g3 = fqdns g" by (simp add: ip_pass_fqdns)
next
  show "run_pass mal ip_aggregate (Score_distance radius sentinel target_fqdns) g = Inr g"
    by simp
qed

lemma ratio_aggregate_total: "\<exists>v. ratio_aggregate a cnt = Inr v"
  by (simp add: ratio_aggregate_def checked_div_def)

lemma ratio_aggregate_zero: "ratio_aggregate a 0 = Inr 0"
  by (simp add: ratio_aggregate_def)

lemma dom_aggregate_total:
  "\<exists>a. dom_aggregate mal g d = Inr a \<and> cntFQDN a = length (dom_fqdns g d)
      \<and> ratio_aggregate (of_nat (cntMalFQDNs a)) (cntFQDN a) = Inr (malFQDN_ratio a)
      \<and> ratio_aggregate (sumMalEng a) (cntFQDN a) = Inr (malEng_ratio a)"
proof -
  let ?ns = "dom_fqdns g d"
  obtain v where v: "ratio_aggregate (of_nat (length (filter isMalicious ?ns))) (length ?ns) = Inr v"
    using ratio_aggregate_total by blast
  obtain w where w: "ratio_aggregate (sum_list (map malEngagement ?ns)) (length ?ns) = Inr w"
    using ratio_aggregate_total by blast
  show ?thesis by (simp add: dom_aggregate_def Let_def v w)
qed

lemma aggregate_all_total:
  "(\<And>k. \<exists>a. f k = Inr a) \<Longrightarrow> \<exists>r. aggregate_all f al = Inr r"
proof (induction al)
  case Nil
  then show ?case by simp
next
  case (Cons p al)
  from Cons.prems obtain a where "f (fst p) = Inr a" by blast
  moreover from Cons obtain r where "aggregate_all f al = Inr r" by blast
  ultimately show ?case by simp
qed

lemma domain_pass_total: "\<exists>g'. domain_pass mal g = Inr g'"
proof -
  have "\<exists>r. aggregate_all (dom_aggregate mal g) (domains g) = Inr r"
    by (rule aggregate_all_total) (use dom_aggregate_total in blast)
  then show ?thesis by (auto simp: domain_pass_def)
qed

text \<open>
  C6. The aggregate of a Domain node is computed without error for every graph, and when
  its \<open>cntFQDN\<close> is 0 both \<open>malFQDN_ratio\<close> and \<open>malEng_ratio\<close> are 0; the Domain
  pass as a whole never fails; a ratio aggregate over a count of 0 is 0, and over any count
  it is a value, never \<open>ZeroDivisionError\<close>.
\<close>

theorem C6_ratio_zero_guard:
  "(\<exists>a. dom_aggregate mal g d = Inr a
        \<and> (cntFQDN a = 0 \<longrightarrow> malFQDN_ratio a = 0 \<and> malEng_ratio a = 0))
   \<and> (\<exists>g'. domain_pass mal g = Inr g')
   \<and> ratio_aggregate x 0 = Inr 0
   \<and> (\<exists>v. ratio_aggregate x cnt = Inr v)"
proof -
  from dom_aggregate_total[of mal g d] obtain a where
    a: "dom_aggregate mal g d = Inr a"
       "ratio_aggregate (of_nat (cntMalFQDNs a)) (cntFQDN a) = Inr (malFQDN_ratio a)"
       "ratio_aggregate (sumMalEng a) (cntFQDN a) = Inr (malEng_ratio a)"
    by blast
  have "cntFQDN a = 0 \<longrightarrow> malFQDN_ratio a = 0 \<and> malEng_ratio a = 0"
    using a(2,3) by (auto simp: ratio_aggregate_zero)
  with a(1) have A: "\<exists>a. dom_aggregate mal g d = Inr a
        \<and> (cntFQDN a = 0 \<longrightarrow> malFQDN_ratio a = 0 \<and> malEng_ratio a = 0)"
    by (intro exI[of _ a]) simp
  show ?thesis
    using A domain_pass_total[of mal g] ratio_aggregate_zero[of x] ratio_aggregate_total[of x cnt]
    by (intro conjI)
qed

lemma example_graph_eq: "example_graph = \<lparr>fqdns =
    [(''a.example.com'',
      \<lparr>logday = 18716, isMalicious = False, malEngagement = 0,
         popularity = 0\<rparr>),
     (''b.evil.com'',
      \<lparr>logday = 18716, isMalicious = True, malEngagement = 5,
         popularity = 0\<rparr>)],
    domains = [(''example.com'', None), (''evil.com'', None)],
    ips = [(''1.1.1.1'', None)],
    belongs_to =
      [(''b.evil.com'', ''evil.com''),
       (''a.example.com'', ''example.com'')],
    resolves_to =
      [(''b.evil.com'', ''1.1.1.1''), (''a.example.com'', ''1.1.1.1'')]\<rparr>"
  by (simp add: example_graph_def apply_malicious_history_def apply_label_def upsert_batch_def upsert_row_def upsert_fqdn_def merge_key_def example_rows_def empty_graph_def label_node_def)

lemma parked_aggregate: "dom_aggregate malEngagement parked_graph ''parked.org'' = Inr \<lparr>cntFQDN = 0, cntIP = 0, cntMalFQDNs = 0, sumMalEng = 0,
        maxMalEng = None, minMalEng = None, avgMalEng = None,
        maxCisco = None, minCisco = None, avgCisco = None, sumMal = 0,
        maxMal = None, minMal = None, avgMal = None, malFQDN_ratio = 0,
        malEng_ratio = 0\<rparr>"
  by (simp add: parked_graph_def example_graph_eq dom_aggregate_def dom_fqdns_def dom_ips_def ratio_aggregate_def list_max_def list_min_def list_avg_def)

lemma evil_com_aggregate:
  "\<exists>a. dom_aggregate malEngagement example_graph ''evil.com'' = Inr a \<and> cntFQDN a = 1
      \<and> cntMalFQDNs a = 1 \<and> malFQDN_ratio a = 1 \<and> malEng_ratio a = 5"
  by (simp add: example_graph_eq dom_aggregate_def dom_fqdns_def dom_ips_def ratio_aggregate_def checked_div_def list_max_def list_min_def list_avg_def)

lemma example_run:
  "\<exists>g'. run_passes malEngagement (\<lambda>g k. Inr \<lparr>ipDom = 0, ipMalDom = 0, ipDomMalEng = 0\<rparr>)
     [Propagate [(''b.evil.com'', 2)], Domain_pass, Ip_pass, Score_distance 3 10 [''a.example.com'']] example_graph = Inr g'
   \<and> map_of (fqdns g') ''b.evil.com'' = Some \<lparr>logday = 18716, isMalicious = True, malEngagement = 5, popularity = 0\<rparr>"
  by (simp add: example_graph_eq apply_malicious_history_def apply_label_def label_node_def domain_pass_def ip_pass_def dom_aggregate_def dom_fqdns_def dom_ips_def ratio_aggregate_def checked_div_def list_max_def list_min_def list_avg_def)

theorem C4_label_monotonic_witness:
  "\<exists>g'. run_passes malEngagement (\<lambda>g k. Inr \<lparr>ipDom = 0, ipMalDom = 0, ipDomMalEng = 0\<rparr>)
          [Propagate [(''b.evil.com'', 2)], Domain_pass, Ip_pass,
           Score_distance 3 10 [''a.example.com'']] example_graph = Inr g'
      \<and> map_of (fqdns example_graph) ''b.evil.com'' =
          Some \<lparr>logday = 18716, isMalicious = True, malEngagement = 5, popularity = 0\<rparr>
      \<and> (\<exists>n'. map_of (fqdns g') ''b.evil.com'' = Some n' \<and> isMalicious n'
              \<and> 5 \<le> malEngagement n')
      \<and> map_of (fqdns (apply_label (''b.evil.com'', 7) example_graph)) ''b.evil.com'' =
          Some \<lparr>logday = 18716, isMalicious = True, malEngagement = 7, popularity = 0\<rparr>
      \<and> map_of (fqdns (apply_label (''b.evil.com'', 2) example_graph)) ''b.evil.com'' =
          Some \<lparr>logday = 18716, isMalicious = True, malEngagement = 5, popularity = 0\<rparr>"
proof -
  from example_run obtain g' where
    r: "run_passes malEngagement (\<lambda>g k. Inr \<lparr>ipDom = 0, ipMalDom = 0, ipDomMalEng = 0\<rparr>)
          [Propagate [(''b.evil.com'', 2)], Domain_pass, Ip_pass,
           Score_distance 3 10 [''a.example.com'']] example_graph = Inr g'"
    by blast
  have m: "map_of (fqdns example_graph) ''b.evil.com'' =
          Some \<lparr>logday = 18716, isMalicious = True, malEngagement = 5, popularity = 0\<rparr>"
    by (simp add: example_graph_eq)
  note t = C4_label_monotonic
      [of malEngagement "\<lambda>g k. Inr \<lparr>ipDom = 0, ipMalDom = 0, ipDomMalEng = 0\<rparr>"
          "[Propagate [(''b.evil.com'', 2)], Domain_pass, Ip_pass,
            Score_distance 3 10 [''a.example.com'']]"
          example_graph g' "''b.evil.com''"
          "\<lparr>logday = 18716, isMalicious = True, malEngagement = 5, popularity = 0\<rparr>"]
  have k: "\<exists>n'. map_of (fqdns g') ''b.evil.com'' = Some n' \<and> isMalicious n'
              \<and> 5 \<le> malEngagement n'"
    using t[THEN conjunct1] r m by simp
  have u7: "map_of (fqdns (apply_label (''b.evil.com'', 7) example_graph)) ''b.evil.com'' =
          Some \<lparr>logday = 18716, isMalicious = True, malEngagement = 7, popularity = 0\<rparr>"
    using t[THEN conjunct2, THEN conjunct1, of 7] m by simp
  have u2: "map_of (fqdns (apply_label (''b.evil.com'', 2) example_graph)) ''b.evil.com'' =
          Some \<lparr>logday = 18716, isMalicious = True, malEngagement = 5, popularity = 0\<rparr>"
    using t[THEN conjunct2, THEN conjunct1, of 2] m by simp
  from r m k u7 u2 show ?thesis by blast
qed

theorem C6_ratio_zero_guard_witness:
  "dom_aggregate malEngagement parked_graph ''parked.org'' =
     Inr \<lparr>cntFQDN = 0, cntIP = 0, cntMalFQDNs = 0, sumMalEng = 0,
          maxMalEng = None, minMalEng = None, avgMalEng = None,
          maxCisco = None, minCisco = None, avgCisco = None, sumMal = 0,
          maxMal = None, minMal = None, avgMal = None, malFQDN_ratio = 0,
          malEng_ratio = 0\<rparr>
   \<and> ratio_aggregate 7 0 = Inr 0"
  using C6_ratio_zero_guard[of malEngagement parked_graph "''parked.org''" 7 0] parked_aggregate
  by simp

subsection \<open>Distance to malicious FQDNs\<close>

















lemma example_scores:
  "score_distance 3 10 example_graph [''a.example.com'', ''b.evil.com'', ''c.example.org''] =
    [(''a.example.com'', \<lparr>minlen2malFQDN = 2, avglen2malFQDN = 2, maxlen2malFQDN = 2\<rparr>),
     (''b.evil.com'', \<lparr>minlen2malFQDN = 0, avglen2malFQDN = 0, maxlen2malFQDN = 0\<rparr>),
     (''c.example.org'', \<lparr>minlen2malFQDN = 10, avglen2malFQDN = 10, maxlen2malFQDN = 10\<rparr>)]"
  by (simp add: score_distance_def score_one_def example_graph_eq is_malicious_def seeds_def
      hop_distance_def linked_nodes_def numeral_3_eq_3)

end
